theory Spec2Isabelle
  imports Main "HOL-Library.Word"
begin

section \<open>The XSRF interceptor of go-safeweb (safehttp/plugins/xsrf/xsrf.go)\<close>

text \<open>
  The plugin is one Go file. It calls into three things that are not part of it: the
  \<^verbatim>\<open>safehttp\<close> framework of the same repository (requests, cookies, forms, the response
  writer), the token codec \<^verbatim>\<open>golang.org/x/net/xsrftoken\<close>, and the standard library
  (\<^verbatim>\<open>crypto/rand\<close>, \<^verbatim>\<open>encoding/base64\<close>). The framework values are modelled by what the
  plugin reads from them and asks of them; the codec and the random source are inputs of the
  model, gathered in the record \<open>World\<close>.
\<close>

subsection \<open>Errors, status codes, methods\<close>

text \<open>A Go \<^verbatim>\<open>error\<close> is its message; \<^verbatim>\<open>nil\<close> is \<open>None\<close> of \<open>error option\<close>.\<close>

type_synonym error = string

type_synonym StatusCode = int

definition StatusOK :: StatusCode where
  "StatusOK = 200"

definition StatusBadRequest :: StatusCode where
  "StatusBadRequest = 400"

definition StatusUnauthorized :: StatusCode where
  "StatusUnauthorized = 401"

definition StatusForbidden :: StatusCode where
  "StatusForbidden = 403"

definition StatusInternalServerError :: StatusCode where
  "StatusInternalServerError = 500"

definition MethodGet :: string where
  "MethodGet = ''GET''"

definition MethodHead :: string where
  "MethodHead = ''HEAD''"

definition MethodOptions :: string where
  "MethodOptions = ''OPTIONS''"

text \<open>\<^verbatim>\<open>var statePreservingMethods = map[string]bool{...}\<close>; reading a Go map at a key it
  does not hold gives the zero value, \<^verbatim>\<open>false\<close>.\<close>

definition statePreservingMethods :: "string \<rightharpoonup> bool" where
  "statePreservingMethods = [MethodGet \<mapsto> True, MethodHead \<mapsto> True, MethodOptions \<mapsto> True]"

definition index_bool :: "(string \<rightharpoonup> bool) \<Rightarrow> string \<Rightarrow> bool" where
  "index_bool m k = (case m k of None \<Rightarrow> False | Some b \<Rightarrow> b)"

subsection \<open>Cookies\<close>

datatype SameSite = SameSiteLaxMode | SameSiteStrictMode | SameSiteNoneMode

text \<open>Modelled from the spec: \<^verbatim>\<open>safehttp.Cookie\<close>, whose declaration is not in the plugin.
  The spec lists the attributes a cookie is set with: value, SameSite mode, Path, Max-Age and
  the HTTP-only flag.\<close>

record Cookie =
  ck_name :: string
  ck_value :: string
  ck_sameSite :: SameSite
  ck_path :: string
  ck_maxAge :: int
  ck_httpOnly :: bool

text \<open>Modelled from the spec: \<^verbatim>\<open>safehttp.NewCookie\<close>. A new cookie has the given name and
  value and is HTTP-only by default. The spec does not give the default SameSite mode; both
  generators overwrite it, so nothing below depends on the one chosen here.\<close>

definition NewCookie :: "string \<Rightarrow> string \<Rightarrow> Cookie" where
  "NewCookie name val =
     \<lparr>ck_name = name, ck_value = val, ck_sameSite = SameSiteLaxMode, ck_path = '''',
      ck_maxAge = 0, ck_httpOnly = True\<rparr>"

text \<open>Modelled from the spec: the methods of \<^verbatim>\<open>safehttp.Cookie\<close> that the plugin calls. Each
  reads or sets the one attribute it is named after.\<close>

definition Value :: "Cookie \<Rightarrow> string" where
  "Value ck = ck_value ck"

definition SetSameSite :: "Cookie \<Rightarrow> SameSite \<Rightarrow> Cookie" where
  "SetSameSite ck s = ck\<lparr>ck_sameSite := s\<rparr>"

definition SetPath :: "Cookie \<Rightarrow> string \<Rightarrow> Cookie" where
  "SetPath ck p = ck\<lparr>ck_path := p\<rparr>"

definition SetMaxAge :: "Cookie \<Rightarrow> int \<Rightarrow> Cookie" where
  "SetMaxAge ck a = ck\<lparr>ck_maxAge := a\<rparr>"

definition DisableHTTPOnly :: "Cookie \<Rightarrow> Cookie" where
  "DisableHTTPOnly ck = ck\<lparr>ck_httpOnly := False\<rparr>"

subsection \<open>Forms and requests\<close>

text \<open>Modelled from the spec: \<^verbatim>\<open>safehttp.Form\<close>, the fields of a parsed form and the error
  the form has collected.\<close>

record Form =
  form_values :: "string \<rightharpoonup> string"
  form_err :: "error option"

text \<open>Modelled from the spec: \<^verbatim>\<open>Form.String\<close>, the string accessor with an explicit
  not-found default, and \<^verbatim>\<open>Form.Err\<close>.\<close>

definition Form_String :: "Form \<Rightarrow> string \<Rightarrow> string \<Rightarrow> string" where
  "Form_String f param defaultValue =
     (case form_values f param of None \<Rightarrow> defaultValue | Some v \<Rightarrow> v)"

definition Form_Err :: "Form \<Rightarrow> error option" where
  "Form_Err f = form_err f"

text \<open>Modelled from the spec: \<^verbatim>\<open>safehttp.MultipartForm\<close>; the plugin reads its \<^verbatim>\<open>Form\<close>
  only.\<close>

record MultipartForm =
  mf_Form :: Form

text \<open>Modelled from the spec: \<^verbatim>\<open>safehttp.IncomingRequest\<close>, as the typed accessors the plugin
  consumes: the method, the URL path, a cookie by name (an error when there is none), a header
  by name (empty when there is none), the URL-encoded form, and the multipart form under a
  byte-size cap.\<close>

record IncomingRequest =
  Method :: string
  URL_Path :: string
  Cookie :: "string \<Rightarrow> error + Cookie"
  Header_Get :: "string \<Rightarrow> string"
  PostForm :: "error + Form"
  MultipartForm :: "int \<Rightarrow> error + MultipartForm"

subsection \<open>Responses and the response writer\<close>

text \<open>Modelled from the spec: a response is template-backed, exposing a mutable mapping from
  names to functions, or it is not. The only functions the plugin stores take no argument and
  return a string.\<close>

type_synonym FuncMap = "string \<rightharpoonup> (unit \<Rightarrow> string)"

datatype Response = TemplateResponse FuncMap | OtherResponse

text \<open>Modelled from the spec: \<^verbatim>\<open>safehttp.ResponseWriter\<close>, as the sequence of calls that took
  effect on it (an error response written with a status code, a cookie set), and the error with
  which it refuses a cookie.\<close>

datatype WriterCall = WroteError StatusCode | DidSetCookie Cookie

record ResponseWriter =
  calls :: "WriterCall list"
  refuses :: "Cookie \<Rightarrow> error option"

text \<open>Modelled from the spec: \<^verbatim>\<open>safehttp.Result\<close>. It carries no data: the plugin builds it as
  \<^verbatim>\<open>safehttp.Result{}\<close>. Whether a response has been written is read off the writer.\<close>

datatype Result = EmptyResult

text \<open>Modelled from the spec: \<^verbatim>\<open>safehttp.NotWritten\<close> touches nothing;
  \<^verbatim>\<open>ResponseWriter.WriteError\<close> writes a response that carries the status code, and nothing
  else; \<^verbatim>\<open>ResponseWriter.SetCookie\<close> sets the cookie, or returns an error and sets nothing.\<close>

definition NotWritten :: Result where
  "NotWritten = EmptyResult"

definition WriteError :: "ResponseWriter \<Rightarrow> StatusCode \<Rightarrow> Result \<times> ResponseWriter" where
  "WriteError w code = (EmptyResult, w\<lparr>calls := calls w @ [WroteError code]\<rparr>)"

definition SetCookie :: "ResponseWriter \<Rightarrow> Cookie \<Rightarrow> error option \<times> ResponseWriter" where
  "SetCookie w ck =
     (case refuses w ck of
        Some err \<Rightarrow> (Some err, w)
      | None \<Rightarrow> (None, w\<lparr>calls := calls w @ [DidSetCookie ck]\<rparr>))"

subsection \<open>The standard library: random bytes and base64\<close>

text \<open>\<^verbatim>\<open>base64.StdEncoding.EncodeToString\<close>: the alphabet of RFC 4648, three bytes to four
  characters, padded with \<^verbatim>\<open>=\<close>.\<close>

definition encodeStd :: string where
  "encodeStd = ''ABCDEFGHIJKLMNOPQRSTUVWXYZabcdefghijklmnopqrstuvwxyz0123456789+/''"

definition b64chr :: "nat \<Rightarrow> char" where
  "b64chr n = encodeStd ! (n mod 64)"

fun EncodeToString :: "8 word list \<Rightarrow> string" where
  "EncodeToString [] = []"
| "EncodeToString [a] =
     (let v = unat a * 65536
      in [b64chr (v div 262144), b64chr (v div 4096), CHR ''='', CHR ''=''])"
| "EncodeToString [a, b] =
     (let v = unat a * 65536 + unat b * 256
      in [b64chr (v div 262144), b64chr (v div 4096), b64chr (v div 64), CHR ''=''])"
| "EncodeToString (a # b # c # rest) =
     (let v = unat a * 65536 + unat b * 256 + unat c
      in [b64chr (v div 262144), b64chr (v div 4096), b64chr (v div 64), b64chr v]
         @ EncodeToString rest)"

text \<open>The world outside the plugin at the moment of one call. The token codec
  \<^verbatim>\<open>xsrftoken.Generate(key, userID, actionID)\<close> and
  \<^verbatim>\<open>xsrftoken.Valid(token, key, userID, actionID)\<close> is third-party code that reads the clock:
  the model takes the two functions as they are at that moment, and assumes nothing about
  them. Of \<^verbatim>\<open>crypto/rand\<close> it takes what the next read does: it fails, or it delivers bytes.\<close>

record World =
  xsrftoken_Generate :: "string \<Rightarrow> string \<Rightarrow> string \<Rightarrow> string"
  xsrftoken_Valid :: "string \<Rightarrow> string \<Rightarrow> string \<Rightarrow> string \<Rightarrow> bool"
  rand_err :: "error option"
  rand_bytes :: "nat \<Rightarrow> 8 word"

text \<open>\<^verbatim>\<open>rand.Read(buf)\<close> on a buffer of \<open>n\<close> bytes: an error, or the buffer filled.\<close>

definition rand_Read :: "World \<Rightarrow> nat \<Rightarrow> error + 8 word list" where
  "rand_Read wd n =
     (case rand_err wd of
        Some err \<Rightarrow> Inl err
      | None \<Rightarrow> Inr (map (rand_bytes wd) [0..<n]))"

subsection \<open>Generated data, generators, checkers, injectors\<close>

text \<open>The two payloads. \<^verbatim>\<open>cookieID\<close> and \<^verbatim>\<open>tokCookie\<close> are pointers in the source; every
  payload that a generator returns points to a cookie, and the record holds that cookie.\<close>

record defaultData =
  cookieID :: Cookie
  token :: string
  setCookie :: bool

record angularData =
  tokCookie :: Cookie
  setCookie :: bool

text \<open>\<^verbatim>\<open>type GeneratedData interface{}\<close>: nil, one of the two payloads of the plugin, or
  a value of some other type (named by a tag).\<close>

datatype GeneratedData =
  NilData | DefaultData defaultData | AngularData angularData | OtherData string

record defaultGenerator =
  secretAppKey :: string
  cookieIDKey :: string

record defaultChecker =
  secretAppKey :: string
  cookieIDKey :: string
  tokenKey :: string

record angularGenerator =
  tokenCookieName :: string

record angularChecker =
  tokenCookieName :: string
  tokenHeaderName :: string

text \<open>The three interfaces, each with the two implementations of the plugin and the ones a
  caller of \<^verbatim>\<open>New\<close> may bring.\<close>

datatype Generator =
  DefaultGenerator defaultGenerator
| AngularGenerator angularGenerator
| CustomGenerator "IncomingRequest \<Rightarrow> GeneratedData \<times> error option"

datatype Checker =
  DefaultChecker defaultChecker
| AngularChecker angularChecker
| CustomChecker "IncomingRequest \<Rightarrow> StatusCode"

datatype Injector =
  DefaultInjector
| AngularInjector
| CustomInjector
    "Response \<Rightarrow> ResponseWriter \<Rightarrow> GeneratedData \<Rightarrow> error option \<times> Response \<times> ResponseWriter"

text \<open>The fields \<^verbatim>\<open>g\<close>, \<^verbatim>\<open>c\<close> and \<^verbatim>\<open>i\<close> of the source are \<open>it_g\<close>, \<open>it_c\<close> and \<open>it_i\<close>.\<close>

record Interceptor =
  secretAppKey :: string
  it_g :: Generator
  it_c :: Checker
  it_i :: Injector

definition New :: "string \<Rightarrow> Generator \<Rightarrow> Checker \<Rightarrow> Injector \<Rightarrow> Interceptor" where
  "New key gen chk ijr =
     \<lparr>Interceptor.secretAppKey = key, it_g = gen, it_c = chk, it_i = ijr\<rparr>"

definition Default :: "string \<Rightarrow> Interceptor" where
  "Default key =
     \<lparr>Interceptor.secretAppKey = key,
      it_g = DefaultGenerator
        \<lparr>defaultGenerator.secretAppKey = key, defaultGenerator.cookieIDKey = ''xsrf-cookie''\<rparr>,
      it_c = DefaultChecker
        \<lparr>defaultChecker.secretAppKey = key, defaultChecker.cookieIDKey = ''xsrf-cookie'',
         tokenKey = ''xsrf-token''\<rparr>,
      it_i = DefaultInjector\<rparr>"

text \<open>\<^verbatim>\<open>Angular\<close> names no \<^verbatim>\<open>secretAppKey\<close> in its literal: the field has Go's zero value,
  the empty string.\<close>

definition Angular :: "string \<Rightarrow> string \<Rightarrow> Interceptor" where
  "Angular cookieName headerName =
     \<lparr>Interceptor.secretAppKey = '''',
      it_g = AngularGenerator \<lparr>angularGenerator.tokenCookieName = cookieName\<rparr>,
      it_c = AngularChecker
        \<lparr>angularChecker.tokenCookieName = cookieName, tokenHeaderName = headerName\<rparr>,
      it_i = AngularInjector\<rparr>"

subsection \<open>The Default strategy\<close>

text \<open>The cookie is read or minted first; the error return leaves the function there; the
  token is derived from whichever cookie there is.\<close>

definition defaultGenerator_Generate ::
  "World \<Rightarrow> defaultGenerator \<Rightarrow> IncomingRequest \<Rightarrow> GeneratedData \<times> error option" where
  "defaultGenerator_Generate wd gen r =
     (case (case Cookie r (defaultGenerator.cookieIDKey gen) of
              Inr ck \<Rightarrow> Inr (ck, False)
            | Inl _ \<Rightarrow>
                (case rand_Read wd 20 of
                   Inl err \<Rightarrow> Inl (''crypto/rand.Read: '' @ err)
                 | Inr buf \<Rightarrow>
                     Inr (SetSameSite
                            (NewCookie (defaultGenerator.cookieIDKey gen) (EncodeToString buf))
                            SameSiteStrictMode,
                          True))) of
        Inl err \<Rightarrow> (NilData, Some err)
      | Inr (ck, fresh) \<Rightarrow>
          (DefaultData
             \<lparr>cookieID = ck,
              token = xsrftoken_Generate wd (defaultGenerator.secretAppKey gen) (Value ck)
                        (URL_Path r),
              defaultData.setCookie = fresh\<rparr>,
           None))"

definition defaultChecker_Check ::
  "World \<Rightarrow> defaultChecker \<Rightarrow> IncomingRequest \<Rightarrow> StatusCode" where
  "defaultChecker_Check wd chk r =
     (if index_bool statePreservingMethods (Method r) then StatusOK
      else case Cookie r (defaultChecker.cookieIDKey chk) of
        Inl _ \<Rightarrow> StatusForbidden
      | Inr cookie \<Rightarrow>
          (case (case PostForm r of
                   Inr f \<Rightarrow> Some f
                 | Inl _ \<Rightarrow>
                     (case MultipartForm r (push_bit 20 32) of
                        Inl _ \<Rightarrow> None
                      | Inr mf \<Rightarrow> Some (mf_Form mf))) of
             None \<Rightarrow> StatusBadRequest
           | Some f \<Rightarrow>
               (let tok = Form_String f (tokenKey chk) ''''
                in if Form_Err f \<noteq> None \<or> tok = '''' then StatusUnauthorized
                   else if \<not> xsrftoken_Valid wd tok (defaultChecker.secretAppKey chk)
                                (Value cookie) (URL_Path r)
                   then StatusForbidden
                   else StatusOK)))"

definition defaultInjector_Inject ::
  "Response \<Rightarrow> ResponseWriter \<Rightarrow> GeneratedData \<Rightarrow> error option \<times> Response \<times> ResponseWriter" where
  "defaultInjector_Inject resp w data =
     (case data of
        DefaultData d \<Rightarrow>
          (case (if defaultData.setCookie d then SetCookie w (cookieID d) else (None, w)) of
             (Some err, w') \<Rightarrow> (Some err, resp, w')
           | (None, w') \<Rightarrow>
               (case resp of
                  TemplateResponse fm \<Rightarrow>
                    (None, TemplateResponse (fm(''XSRFToken'' \<mapsto> (\<lambda>_. token d))), w')
                | OtherResponse \<Rightarrow> (None, resp, w')))
      | _ \<Rightarrow> (Some ''invalid data received'', resp, w))"

subsection \<open>The Angular strategy\<close>

definition angularGenerator_Generate ::
  "World \<Rightarrow> angularGenerator \<Rightarrow> IncomingRequest \<Rightarrow> GeneratedData \<times> error option" where
  "angularGenerator_Generate wd gen r =
     (case (case Cookie r (angularGenerator.tokenCookieName gen) of
              Inr ck \<Rightarrow> Inr (ck, False)
            | Inl _ \<Rightarrow>
                (case rand_Read wd 20 of
                   Inl err \<Rightarrow> Inl (''crypto/rand.Read: '' @ err)
                 | Inr tok \<Rightarrow>
                     Inr (DisableHTTPOnly
                            (SetMaxAge
                               (SetPath
                                  (SetSameSite
                                     (NewCookie (angularGenerator.tokenCookieName gen)
                                        (EncodeToString tok))
                                     SameSiteStrictMode)
                                  ''/'')
                               86400),
                          True))) of
        Inl err \<Rightarrow> (NilData, Some err)
      | Inr (ck, fresh) \<Rightarrow>
          (AngularData \<lparr>tokCookie = ck, angularData.setCookie = fresh\<rparr>, None))"

definition angularChecker_Check :: "angularChecker \<Rightarrow> IncomingRequest \<Rightarrow> StatusCode" where
  "angularChecker_Check chk r =
     (if index_bool statePreservingMethods (Method r) then StatusOK
      else case Cookie r (angularChecker.tokenCookieName chk) of
        Inl _ \<Rightarrow> StatusForbidden
      | Inr cookie \<Rightarrow>
          (let tok = Header_Get r (tokenHeaderName chk)
           in if tok = '''' \<or> tok \<noteq> Value cookie then StatusUnauthorized
              else StatusOK))"

definition angularInjector_Inject ::
  "Response \<Rightarrow> ResponseWriter \<Rightarrow> GeneratedData \<Rightarrow> error option \<times> Response \<times> ResponseWriter" where
  "angularInjector_Inject resp w data =
     (case data of
        AngularData d \<Rightarrow>
          (case (if angularData.setCookie d then SetCookie w (tokCookie d) else (None, w)) of
             (Some err, w') \<Rightarrow> (Some err, resp, w')
           | (None, w') \<Rightarrow> (None, resp, w'))
      | _ \<Rightarrow> (Some ''invalid data received'', resp, w))"

subsection \<open>The interceptor\<close>

text \<open>Calls through the three interfaces.\<close>

fun Check :: "World \<Rightarrow> Checker \<Rightarrow> IncomingRequest \<Rightarrow> StatusCode" where
  "Check wd (DefaultChecker chk) r = defaultChecker_Check wd chk r"
| "Check wd (AngularChecker chk) r = angularChecker_Check chk r"
| "Check wd (CustomChecker f) r = f r"

fun Generate :: "World \<Rightarrow> Generator \<Rightarrow> IncomingRequest \<Rightarrow> GeneratedData \<times> error option" where
  "Generate wd (DefaultGenerator gen) r = defaultGenerator_Generate wd gen r"
| "Generate wd (AngularGenerator gen) r = angularGenerator_Generate wd gen r"
| "Generate wd (CustomGenerator f) r = f r"

fun Inject ::
  "Injector \<Rightarrow> Response \<Rightarrow> ResponseWriter \<Rightarrow> GeneratedData
     \<Rightarrow> error option \<times> Response \<times> ResponseWriter" where
  "Inject DefaultInjector resp w data = defaultInjector_Inject resp w data"
| "Inject AngularInjector resp w data = angularInjector_Inject resp w data"
| "Inject (CustomInjector f) resp w data = f resp w data"

text \<open>\<^verbatim>\<open>Before\<close> and \<^verbatim>\<open>Commit\<close> return the \<^verbatim>\<open>Result\<close> together with the writer (and, for
  \<^verbatim>\<open>Commit\<close>, the response) as the call leaves them. Both ignore their
  \<^verbatim>\<open>InterceptorConfig\<close> argument, which the model leaves out.\<close>

definition Before ::
  "World \<Rightarrow> Interceptor \<Rightarrow> ResponseWriter \<Rightarrow> IncomingRequest \<Rightarrow> Result \<times> ResponseWriter" where
  "Before wd it w r =
     (let code = Check wd (it_c it) r
      in if code \<noteq> StatusOK then WriteError w code else (NotWritten, w))"

definition Commit ::
  "World \<Rightarrow> Interceptor \<Rightarrow> ResponseWriter \<Rightarrow> IncomingRequest \<Rightarrow> Response
     \<Rightarrow> Result \<times> Response \<times> ResponseWriter" where
  "Commit wd it w r resp =
     (case Generate wd (it_g it) r of
        (_, Some err) \<Rightarrow>
          (case WriteError w StatusInternalServerError of (res, w') \<Rightarrow> (res, resp, w'))
      | (data, None) \<Rightarrow>
          (case Inject (it_i it) resp w data of
             (Some err, resp', w') \<Rightarrow>
               (case WriteError w' StatusInternalServerError of (res, w'') \<Rightarrow> (res, resp', w''))
           | (None, resp', w') \<Rightarrow> (EmptyResult, resp', w')))"

section \<open>Properties\<close>

subsection \<open>Auxiliary facts\<close>

lemma statePreserving_iff:
  "index_bool statePreservingMethods m \<longleftrightarrow> m = ''GET'' \<or> m = ''HEAD'' \<or> m = ''OPTIONS''"
  by (simp add: index_bool_def statePreservingMethods_def MethodGet_def MethodHead_def
      MethodOptions_def)

lemma cap_32MiB: "push_bit 20 (32::int) = 33554432"
  by (simp add: push_bit_eq_mult)

lemmas status_defs = StatusOK_def StatusBadRequest_def StatusUnauthorized_def
  StatusForbidden_def StatusInternalServerError_def

lemmas cookie_ops = NewCookie_def SetSameSite_def SetPath_def SetMaxAge_def
  DisableHTTPOnly_def Value_def

lemma length_rand_Read: "rand_Read wd n = Inr buf \<Longrightarrow> length buf = n"
  by (auto simp: rand_Read_def split: option.splits)

lemma length_EncodeToString: "length (EncodeToString bs) = 4 * ((length bs + 2) div 3)"
proof (induction bs rule: EncodeToString.induct)
  case (4 a b c rest)
  have "(5 + length rest) div 3 = Suc (Suc (Suc (length rest)) div 3)" by simp
  with 4 show ?case by (simp add: Let_def)
qed (simp_all add: Let_def)

lemma upt_20:
  "[0..<20] = [0, 1, 2, 3, 4, 5, 6, 7, 8, 9, 10, 11, 12, 13, 14, 15, 16, 17, 18, 19::nat]"
  by (simp add: upt_conv_Cons eval_nat_numeral)

lemma EncodeToString_0_to_19:
  "EncodeToString [0, 1, 2, 3, 4, 5, 6, 7, 8, 9, 10, 11, 12, 13, 14, 15, 16, 17, 18, 19]
     = ''AAECAwQFBgcICQoLDA0ODxAREhM=''"
  by (simp add: b64chr_def encodeStd_def)

lemma writer_call_added: "w\<lparr>calls := calls w @ [x]\<rparr> \<noteq> w"
proof
  assume "w\<lparr>calls := calls w @ [x]\<rparr> = w"
  then have "calls (w\<lparr>calls := calls w @ [x]\<rparr>) = calls w" by simp
  then show False by simp
qed

lemma defaultGenerator_Generate_present:
  assumes "Cookie r (defaultGenerator.cookieIDKey dg) = Inr ck"
  shows "defaultGenerator_Generate wd dg r =
     (DefaultData
        \<lparr>cookieID = ck,
         token = xsrftoken_Generate wd (defaultGenerator.secretAppKey dg) (Value ck) (URL_Path r),
         defaultData.setCookie = False\<rparr>,
      None)"
  using assms by (simp add: defaultGenerator_Generate_def)

lemma defaultGenerator_Generate_read_fails:
  assumes "Cookie r (defaultGenerator.cookieIDKey dg) = Inl e" and "rand_Read wd 20 = Inl e'"
  shows "defaultGenerator_Generate wd dg r = (NilData, Some (''crypto/rand.Read: '' @ e'))"
  using assms by (simp add: defaultGenerator_Generate_def)

lemma defaultGenerator_Generate_minted:
  assumes "Cookie r (defaultGenerator.cookieIDKey dg) = Inl e" and "rand_Read wd 20 = Inr buf"
  shows "\<exists>d. defaultGenerator_Generate wd dg r = (DefaultData d, None)"
  using assms by (simp add: defaultGenerator_Generate_def)

lemma angularGenerator_Generate_present:
  assumes "Cookie r (angularGenerator.tokenCookieName ag) = Inr ck"
  shows "angularGenerator_Generate wd ag r =
     (AngularData \<lparr>tokCookie = ck, angularData.setCookie = False\<rparr>, None)"
  using assms by (simp add: angularGenerator_Generate_def)

lemma angularGenerator_Generate_read_fails:
  assumes "Cookie r (angularGenerator.tokenCookieName ag) = Inl e" and "rand_Read wd 20 = Inl e'"
  shows "angularGenerator_Generate wd ag r = (NilData, Some (''crypto/rand.Read: '' @ e'))"
  using assms by (simp add: angularGenerator_Generate_def)

lemma angularGenerator_Generate_minted:
  assumes "Cookie r (angularGenerator.tokenCookieName ag) = Inl e" and "rand_Read wd 20 = Inr buf"
  shows "angularGenerator_Generate wd ag r =
     (AngularData
        \<lparr>tokCookie =
           DisableHTTPOnly
             (SetMaxAge
                (SetPath
                   (SetSameSite
                      (NewCookie (angularGenerator.tokenCookieName ag) (EncodeToString buf))
                      SameSiteStrictMode)
                   ''/'')
                86400),
         angularData.setCookie = True\<rparr>,
      None)"
  using assms by (simp add: angularGenerator_Generate_def)

lemma defaultInjector_Inject_no_SetCookie:
  assumes "\<not> defaultData.setCookie d"
  shows "snd (snd (defaultInjector_Inject resp w (DefaultData d))) = w"
  using assms by (cases resp) (simp_all add: defaultInjector_Inject_def)

lemma angularInjector_Inject_no_SetCookie:
  assumes "\<not> angularData.setCookie d"
  shows "angularInjector_Inject resp w (AngularData d) = (None, resp, w)"
  using assms by (simp add: angularInjector_Inject_def)

lemma angularChecker_Check_reads:
  "angularChecker_Check achk r =
     (if Method r = ''GET'' \<or> Method r = ''HEAD'' \<or> Method r = ''OPTIONS'' then 200
      else case map_sum (\<lambda>_. ()) Value (Cookie r (angularChecker.tokenCookieName achk)) of
        Inl _ \<Rightarrow> 403
      | Inr v \<Rightarrow>
          if Header_Get r (tokenHeaderName achk) = ''''
             \<or> Header_Get r (tokenHeaderName achk) \<noteq> v
          then 401 else 200)"
  by (cases "Cookie r (angularChecker.tokenCookieName achk)")
    (simp_all add: angularChecker_Check_def statePreserving_iff status_defs)

subsection \<open>What the checkers accept\<close>

text \<open>
  Claim C2. On a request whose method is GET, HEAD or OPTIONS, the checker of the Default
  strategy and the checker of the Angular strategy both return 200, whatever the cookies, the
  form, the headers, the checker's configuration and the codec are.
\<close>

theorem Check_state_preserving_ok:
  assumes "Method r = ''GET'' \<or> Method r = ''HEAD'' \<or> Method r = ''OPTIONS''"
  shows "Check wd (DefaultChecker dchk) r = 200 \<and> Check wd (AngularChecker achk) r = 200"
  using assms
  by (simp add: defaultChecker_Check_def angularChecker_Check_def statePreserving_iff
      StatusOK_def)

text \<open>A GET request with no cookie, no header and no form passes both checkers.\<close>

theorem Check_state_preserving_ok_witness:
  "let r = \<lparr>Method = ''GET'', URL_Path = ''/'',
            Cookie = (\<lambda>_. Inl ''http: named cookie not present''),
            Header_Get = (\<lambda>_. ''''), PostForm = Inl ''no form'',
            MultipartForm = (\<lambda>_. Inl ''no form'')\<rparr>;
       wd = \<lparr>xsrftoken_Generate = (\<lambda>k s p. k @ '':'' @ s @ '':'' @ p),
             xsrftoken_Valid = (\<lambda>t k s p. t = k @ '':'' @ s @ '':'' @ p),
             rand_err = None, rand_bytes = (\<lambda>_. 0)\<rparr>
   in (Method r = ''GET'' \<or> Method r = ''HEAD'' \<or> Method r = ''OPTIONS'')
      \<and> Check wd (it_c (Default ''secret'')) r = 200
      \<and> Check wd (it_c (Angular ''XSRF-TOKEN'' ''X-XSRF-TOKEN'')) r = 200"
proof -
  define r where "r = \<lparr>Method = ''GET'', URL_Path = ''/'',
            Cookie = (\<lambda>_. Inl ''http: named cookie not present''),
            Header_Get = (\<lambda>_. ''''), PostForm = Inl ''no form'',
            MultipartForm = (\<lambda>_. Inl ''no form'')\<rparr>"
  have h: "Method r = ''GET'' \<or> Method r = ''HEAD'' \<or> Method r = ''OPTIONS''"
    by (simp add: r_def)
  show ?thesis
    using h Check_state_preserving_ok [OF h]
    unfolding Let_def r_def Default_def Angular_def by simp
qed

text \<open>
  Claim C1. On a request whose method is not GET, HEAD or OPTIONS:

  \<^item> the Default checker returns 200 exactly when the named cookie is present, the request
    carries a form (the URL-encoded one or, when that one cannot be read, the multipart one
    read under the cap of 33554432 bytes), the token field of that form is read without error
    and is not empty, and the codec accepts the token for the checker's secret key, the
    cookie's value and the request's URL path;
  \<^item> the Angular checker returns 200 exactly when the named cookie is present and the value of
    the configured header is not empty and equal to the cookie's value.
\<close>

theorem Check_ok_iff:
  assumes "Method r \<noteq> ''GET''" and "Method r \<noteq> ''HEAD''" and "Method r \<noteq> ''OPTIONS''"
  shows "(Check wd (DefaultChecker dchk) r = 200 \<longleftrightarrow>
           (\<exists>ck f. Cookie r (defaultChecker.cookieIDKey dchk) = Inr ck
              \<and> (PostForm r = Inr f
                  \<or> (isl (PostForm r)
                      \<and> (\<exists>mf. MultipartForm r 33554432 = Inr mf \<and> mf_Form mf = f)))
              \<and> Form_Err f = None
              \<and> Form_String f (tokenKey dchk) '''' \<noteq> ''''
              \<and> xsrftoken_Valid wd (Form_String f (tokenKey dchk) '''')
                    (defaultChecker.secretAppKey dchk) (Value ck) (URL_Path r)))
       \<and> (Check wd (AngularChecker achk) r = 200 \<longleftrightarrow>
           (\<exists>ck. Cookie r (angularChecker.tokenCookieName achk) = Inr ck
              \<and> Header_Get r (tokenHeaderName achk) \<noteq> ''''
              \<and> Header_Get r (tokenHeaderName achk) = Value ck))"
proof -
  have np: "\<not> index_bool statePreservingMethods (Method r)"
    using assms by (simp add: statePreserving_iff)
  have d: "defaultChecker_Check wd dchk r = 200 \<longleftrightarrow>
           (\<exists>ck f. Cookie r (defaultChecker.cookieIDKey dchk) = Inr ck
              \<and> (PostForm r = Inr f
                  \<or> (isl (PostForm r)
                      \<and> (\<exists>mf. MultipartForm r 33554432 = Inr mf \<and> mf_Form mf = f)))
              \<and> Form_Err f = None
              \<and> Form_String f (tokenKey dchk) '''' \<noteq> ''''
              \<and> xsrftoken_Valid wd (Form_String f (tokenKey dchk) '''')
                    (defaultChecker.secretAppKey dchk) (Value ck) (URL_Path r))"
    using np
    by (auto simp: defaultChecker_Check_def cap_32MiB Let_def status_defs
        split: sum.splits option.splits)
  have a: "angularChecker_Check achk r = 200 \<longleftrightarrow>
           (\<exists>ck. Cookie r (angularChecker.tokenCookieName achk) = Inr ck
              \<and> Header_Get r (tokenHeaderName achk) \<noteq> ''''
              \<and> Header_Get r (tokenHeaderName achk) = Value ck)"
    using np
    by (auto simp: angularChecker_Check_def Let_def status_defs split: sum.splits)
  show ?thesis using d a by simp
qed

text \<open>A POST with the cookie, the matching header and a token the codec accepts passes both
  checkers; under another secret key, or another header name, it does not.\<close>

theorem Check_ok_iff_witness:
  "let r = \<lparr>Method = ''POST'', URL_Path = ''/pay'',
            Cookie = (\<lambda>n. if n = ''xsrf-cookie'' then Inr (NewCookie n ''sid'')
                          else Inl ''http: named cookie not present''),
            Header_Get = (\<lambda>n. if n = ''X-XSRF-TOKEN'' then ''sid'' else ''''),
            PostForm = Inr \<lparr>form_values = [''xsrf-token'' \<mapsto> ''secret:sid:/pay''],
                             form_err = None\<rparr>,
            MultipartForm = (\<lambda>_. Inl ''not multipart'')\<rparr>;
       wd = \<lparr>xsrftoken_Generate = (\<lambda>k s p. k @ '':'' @ s @ '':'' @ p),
             xsrftoken_Valid = (\<lambda>t k s p. t = k @ '':'' @ s @ '':'' @ p),
             rand_err = None, rand_bytes = (\<lambda>_. 0)\<rparr>
   in Method r \<noteq> ''GET'' \<and> Method r \<noteq> ''HEAD'' \<and> Method r \<noteq> ''OPTIONS''
      \<and> Check wd (it_c (Default ''secret'')) r = 200
      \<and> Check wd (it_c (Angular ''xsrf-cookie'' ''X-XSRF-TOKEN'')) r = 200
      \<and> Check wd (it_c (Default ''other'')) r \<noteq> 200
      \<and> Check wd (it_c (Angular ''xsrf-cookie'' ''X-Other'')) r \<noteq> 200"
proof -
  define r where "r = \<lparr>Method = ''POST'', URL_Path = ''/pay'',
            Cookie = (\<lambda>n. if n = ''xsrf-cookie'' then Inr (NewCookie n ''sid'')
                          else Inl ''http: named cookie not present''),
            Header_Get = (\<lambda>n. if n = ''X-XSRF-TOKEN'' then ''sid'' else ''''),
            PostForm = Inr \<lparr>form_values = [''xsrf-token'' \<mapsto> ''secret:sid:/pay''],
                             form_err = None\<rparr>,
            MultipartForm = (\<lambda>_. Inl ''not multipart'')\<rparr>"
  have h1: "Method r \<noteq> ''GET''" and h2: "Method r \<noteq> ''HEAD''"
    and h3: "Method r \<noteq> ''OPTIONS''"
    by (simp_all add: r_def)
  note Check_ok_iff [OF h1 h2 h3]
  then show ?thesis
    using h1 h2 h3 unfolding Let_def r_def Default_def Angular_def
    by (simp add: cookie_ops Form_String_def Form_Err_def)
qed

text \<open>
  Claim C4. On a request whose method is not GET, HEAD or OPTIONS, the Default checker's
  status is that of the first condition that fails, in this order: no named cookie, 403; no
  URL-encoded form and no multipart form under the cap of 33554432 bytes (32 MiB), 400; a
  form error or an empty or missing token field, 401; a token the codec rejects for the
  secret key, the cookie's value and the URL path, 403; none of these, 200.
\<close>

theorem defaultChecker_Check_first_failure:
  assumes "Method r \<noteq> ''GET''" and "Method r \<noteq> ''HEAD''" and "Method r \<noteq> ''OPTIONS''"
  shows "defaultChecker_Check wd chk r =
     (let f = (case PostForm r of
                 Inr pf \<Rightarrow> pf
               | Inl _ \<Rightarrow> mf_Form (projr (MultipartForm r 33554432)));
          tok = Form_String f (tokenKey chk) ''''
      in if isl (Cookie r (defaultChecker.cookieIDKey chk)) then 403
         else if isl (PostForm r) \<and> isl (MultipartForm r 33554432) then 400
         else if Form_Err f \<noteq> None \<or> tok = '''' then 401
         else if \<not> xsrftoken_Valid wd tok (defaultChecker.secretAppKey chk)
                      (Value (projr (Cookie r (defaultChecker.cookieIDKey chk)))) (URL_Path r)
              then 403
         else 200)"
proof -
  have np: "\<not> index_bool statePreservingMethods (Method r)"
    using assms by (simp add: statePreserving_iff)
  show ?thesis
    using np
    by (auto simp: defaultChecker_Check_def cap_32MiB Let_def status_defs
        split: sum.splits option.splits)
qed

text \<open>One POST for each outcome: accepted; without the cookie; with no readable form; with a
  multipart form that lacks the token; with a token made for another path.\<close>

theorem defaultChecker_Check_first_failure_witness:
  "let r = \<lparr>Method = ''POST'', URL_Path = ''/pay'',
            Cookie = (\<lambda>n. if n = ''xsrf-cookie'' then Inr (NewCookie n ''sid'')
                          else Inl ''http: named cookie not present''),
            Header_Get = (\<lambda>_. ''''),
            PostForm = Inr \<lparr>form_values = [''xsrf-token'' \<mapsto> ''secret:sid:/pay''],
                             form_err = None\<rparr>,
            MultipartForm = (\<lambda>_. Inl ''not multipart'')\<rparr>;
       wd = \<lparr>xsrftoken_Generate = (\<lambda>k s p. k @ '':'' @ s @ '':'' @ p),
             xsrftoken_Valid = (\<lambda>t k s p. t = k @ '':'' @ s @ '':'' @ p),
             rand_err = None, rand_bytes = (\<lambda>_. 0)\<rparr>;
       chk = \<lparr>defaultChecker.secretAppKey = ''secret'',
              defaultChecker.cookieIDKey = ''xsrf-cookie'', tokenKey = ''xsrf-token''\<rparr>
   in Method r \<noteq> ''GET'' \<and> Method r \<noteq> ''HEAD'' \<and> Method r \<noteq> ''OPTIONS''
      \<and> defaultChecker_Check wd chk r = 200
      \<and> defaultChecker_Check wd chk
            (r\<lparr>Cookie := (\<lambda>_. Inl ''http: named cookie not present'')\<rparr>) = 403
      \<and> defaultChecker_Check wd chk (r\<lparr>PostForm := Inl ''not url-encoded''\<rparr>) = 400
      \<and> defaultChecker_Check wd chk
            (r\<lparr>PostForm := Inl ''not url-encoded'',
               MultipartForm := (\<lambda>_. Inr \<lparr>mf_Form = \<lparr>form_values = Map.empty,
                                                         form_err = None\<rparr>\<rparr>)\<rparr>) = 401
      \<and> defaultChecker_Check wd chk (r\<lparr>URL_Path := ''/other''\<rparr>) = 403"
proof -
  define r where "r = \<lparr>Method = ''POST'', URL_Path = ''/pay'',
            Cookie = (\<lambda>n. if n = ''xsrf-cookie'' then Inr (NewCookie n ''sid'')
                          else Inl ''http: named cookie not present''),
            Header_Get = (\<lambda>_. ''''),
            PostForm = Inr \<lparr>form_values = [''xsrf-token'' \<mapsto> ''secret:sid:/pay''],
                             form_err = None\<rparr>,
            MultipartForm = (\<lambda>_. Inl ''not multipart'')\<rparr>"
  have h1: "Method (r\<lparr>Cookie := c, PostForm := pf, MultipartForm := mf, URL_Path := p\<rparr>)
              \<noteq> ''GET''"
    and h2: "Method (r\<lparr>Cookie := c, PostForm := pf, MultipartForm := mf, URL_Path := p\<rparr>)
              \<noteq> ''HEAD''"
    and h3: "Method (r\<lparr>Cookie := c, PostForm := pf, MultipartForm := mf, URL_Path := p\<rparr>)
              \<noteq> ''OPTIONS''"
    for c pf mf p
    by (simp_all add: r_def)
  note defaultChecker_Check_first_failure [OF h1 h2 h3]
  then show ?thesis
    unfolding Let_def r_def
    by (simp add: cookie_ops Form_String_def Form_Err_def)
qed

subsection \<open>What the generators produce\<close>

text \<open>
  Claim C5. When the request carries the named cookie, the generator of either strategy
  returns no error and a payload whose \<open>setCookie\<close> flag is false and whose cookie is the one
  read from the request; the matching injector, given that payload, leaves the response writer
  as it found it: no cookie is set.
\<close>

theorem Generate_reuses_present_cookie:
  "(Cookie r (defaultGenerator.cookieIDKey dg) = Inr ck \<longrightarrow>
      (\<exists>d. Generate wd (DefaultGenerator dg) r = (DefaultData d, None)
          \<and> \<not> defaultData.setCookie d \<and> cookieID d = ck
          \<and> snd (snd (Inject DefaultInjector resp w (DefaultData d))) = w))
   \<and> (Cookie r (angularGenerator.tokenCookieName ag) = Inr ck \<longrightarrow>
      (\<exists>d. Generate wd (AngularGenerator ag) r = (AngularData d, None)
          \<and> \<not> angularData.setCookie d \<and> tokCookie d = ck
          \<and> snd (snd (Inject AngularInjector resp w (AngularData d))) = w))"
proof (intro conjI impI)
  assume "Cookie r (defaultGenerator.cookieIDKey dg) = Inr ck"
  from defaultGenerator_Generate_present [OF this, of wd]
  show "\<exists>d. Generate wd (DefaultGenerator dg) r = (DefaultData d, None)
          \<and> \<not> defaultData.setCookie d \<and> cookieID d = ck
          \<and> snd (snd (Inject DefaultInjector resp w (DefaultData d))) = w"
    by (simp add: defaultInjector_Inject_no_SetCookie)
next
  assume "Cookie r (angularGenerator.tokenCookieName ag) = Inr ck"
  from angularGenerator_Generate_present [OF this, of wd]
  show "\<exists>d. Generate wd (AngularGenerator ag) r = (AngularData d, None)
          \<and> \<not> angularData.setCookie d \<and> tokCookie d = ck
          \<and> snd (snd (Inject AngularInjector resp w (AngularData d))) = w"
    by (simp add: angularInjector_Inject_no_SetCookie)
qed

text \<open>A request that carries the cookie: both payloads hold it, and neither injector touches the writer.\<close>

theorem Generate_reuses_present_cookie_witness:
  "let r = \<lparr>Method = ''GET'', URL_Path = ''/form'',
            Cookie = (\<lambda>n. if n = ''xsrf-cookie'' then Inr (NewCookie n ''sid'')
                          else Inl ''http: named cookie not present''),
            Header_Get = (\<lambda>_. ''''), PostForm = Inl ''no form'',
            MultipartForm = (\<lambda>_. Inl ''no form'')\<rparr>;
       wd = \<lparr>xsrftoken_Generate = (\<lambda>k s p. k @ '':'' @ s @ '':'' @ p),
             xsrftoken_Valid = (\<lambda>t k s p. t = k @ '':'' @ s @ '':'' @ p),
             rand_err = None, rand_bytes = (\<lambda>_. 0)\<rparr>;
       w = \<lparr>calls = [], refuses = (\<lambda>_. None)\<rparr>
   in Cookie r ''xsrf-cookie'' = Inr (NewCookie ''xsrf-cookie'' ''sid'')
      \<and> Generate wd (it_g (Default ''secret'')) r
          = (DefaultData \<lparr>cookieID = NewCookie ''xsrf-cookie'' ''sid'',
                          token = ''secret:sid:/form'', defaultData.setCookie = False\<rparr>, None)
      \<and> Generate wd (it_g (Angular ''xsrf-cookie'' ''X-XSRF-TOKEN'')) r
          = (AngularData \<lparr>tokCookie = NewCookie ''xsrf-cookie'' ''sid'',
                          angularData.setCookie = False\<rparr>, None)
      \<and> snd (snd (Inject DefaultInjector OtherResponse w
                    (fst (Generate wd (it_g (Default ''secret'')) r)))) = w
      \<and> snd (snd (Inject AngularInjector OtherResponse w
                    (fst (Generate wd (it_g (Angular ''xsrf-cookie'' ''X-XSRF-TOKEN'')) r)))) = w"
proof -
  define r where "r = \<lparr>Method = ''GET'', URL_Path = ''/form'',
            Cookie = (\<lambda>n. if n = ''xsrf-cookie'' then Inr (NewCookie n ''sid'')
                          else Inl ''http: named cookie not present''),
            Header_Get = (\<lambda>_. ''''), PostForm = Inl ''no form'',
            MultipartForm = (\<lambda>_. Inl ''no form'')\<rparr>"
  define wd where "wd = \<lparr>xsrftoken_Generate = (\<lambda>k s p. k @ '':'' @ s @ '':'' @ p),
             xsrftoken_Valid = (\<lambda>t k s p. t = k @ '':'' @ s @ '':'' @ p),
             rand_err = None, rand_bytes = (\<lambda>_. 0 :: 8 word)\<rparr>"
  define dg where "dg = \<lparr>defaultGenerator.secretAppKey = ''secret'',
                         defaultGenerator.cookieIDKey = ''xsrf-cookie''\<rparr>"
  define ag where "ag = \<lparr>angularGenerator.tokenCookieName = ''xsrf-cookie''\<rparr>"
  define w where "w = \<lparr>calls = [], refuses = (\<lambda>_. None)\<rparr>"
  have h1: "Cookie r (defaultGenerator.cookieIDKey dg) = Inr (NewCookie ''xsrf-cookie'' ''sid'')"
    and h2: "Cookie r (angularGenerator.tokenCookieName ag) = Inr (NewCookie ''xsrf-cookie'' ''sid'')"
    by (simp_all add: r_def dg_def ag_def)
  from Generate_reuses_present_cookie [of r dg "NewCookie ''xsrf-cookie'' ''sid''" wd OtherResponse w ag] h1 h2
  have "(\<exists>d. Generate wd (DefaultGenerator dg) r = (DefaultData d, None)
          \<and> \<not> defaultData.setCookie d \<and> cookieID d = NewCookie ''xsrf-cookie'' ''sid''
          \<and> snd (snd (Inject DefaultInjector OtherResponse w (DefaultData d))) = w)
      \<and> (\<exists>d. Generate wd (AngularGenerator ag) r = (AngularData d, None)
          \<and> \<not> angularData.setCookie d \<and> tokCookie d = NewCookie ''xsrf-cookie'' ''sid''
          \<and> snd (snd (Inject AngularInjector OtherResponse w (AngularData d))) = w)"
    by blast
  then show ?thesis
    unfolding Let_def r_def wd_def dg_def ag_def w_def Default_def Angular_def
    by (simp add: defaultGenerator_Generate_def angularGenerator_Generate_def cookie_ops
        defaultInjector_Inject_def angularInjector_Inject_def)
qed

text \<open>
  Claim C7. When the request lacks the named cookie and the random source delivers, the Angular
  generator reads 20 bytes and returns, with no error, a payload whose \<open>setCookie\<close> flag is
  true and whose cookie has the configured name, the standard base64 encoding of those 20
  bytes as its value (28 characters), SameSite Strict, path \<^verbatim>\<open>/\<close>, Max-Age 86400 and
  HTTP-only switched off.
\<close>

theorem angularGenerator_mints_cookie:
  assumes "Cookie r (angularGenerator.tokenCookieName gen) = Inl e"
    and "rand_Read wd 20 = Inr buf"
  shows "length buf = 20 \<and> length (EncodeToString buf) = 28
     \<and> angularGenerator_Generate wd gen r =
        (AngularData
           \<lparr>tokCookie =
              \<lparr>ck_name = angularGenerator.tokenCookieName gen, ck_value = EncodeToString buf,
               ck_sameSite = SameSiteStrictMode, ck_path = ''/'', ck_maxAge = 86400,
               ck_httpOnly = False\<rparr>,
            angularData.setCookie = True\<rparr>,
         None)"
proof -
  have len: "length buf = 20"
    using assms(2) by (rule length_rand_Read)
  then have enc: "length (EncodeToString buf) = 28"
    by (simp add: length_EncodeToString)
  have "DisableHTTPOnly (SetMaxAge (SetPath (SetSameSite (NewCookie n v) SameSiteStrictMode)
            ''/'') 86400)
          = \<lparr>ck_name = n, ck_value = v, ck_sameSite = SameSiteStrictMode, ck_path = ''/'',
             ck_maxAge = 86400, ck_httpOnly = False\<rparr>" for n v
    by (simp add: cookie_ops)
  with angularGenerator_Generate_minted [OF assms] len enc show ?thesis
    by simp
qed

text \<open>With the random bytes 0, 1, ..., 19 the minted cookie's value is their base64 encoding.\<close>

theorem angularGenerator_mints_cookie_witness:
  "let r = \<lparr>Method = ''GET'', URL_Path = ''/app'',
            Cookie = (\<lambda>_. Inl ''http: named cookie not present''),
            Header_Get = (\<lambda>_. ''''), PostForm = Inl ''no form'',
            MultipartForm = (\<lambda>_. Inl ''no form'')\<rparr>;
       wd = \<lparr>xsrftoken_Generate = (\<lambda>k s p. k @ '':'' @ s @ '':'' @ p),
             xsrftoken_Valid = (\<lambda>t k s p. t = k @ '':'' @ s @ '':'' @ p),
             rand_err = None, rand_bytes = of_nat\<rparr>;
       gen = \<lparr>angularGenerator.tokenCookieName = ''XSRF-TOKEN''\<rparr>
   in Cookie r (angularGenerator.tokenCookieName gen) = Inl ''http: named cookie not present''
      \<and> rand_Read wd 20 = Inr (map of_nat [0..<20])
      \<and> angularGenerator_Generate wd gen r =
        (AngularData
           \<lparr>tokCookie =
              \<lparr>ck_name = ''XSRF-TOKEN'', ck_value = ''AAECAwQFBgcICQoLDA0ODxAREhM='',
               ck_sameSite = SameSiteStrictMode, ck_path = ''/'', ck_maxAge = 86400,
               ck_httpOnly = False\<rparr>,
            angularData.setCookie = True\<rparr>,
         None)"
proof -
  define r where "r = \<lparr>Method = ''GET'', URL_Path = ''/app'',
            Cookie = (\<lambda>_. Inl ''http: named cookie not present'' :: error + Cookie),
            Header_Get = (\<lambda>_. ''''), PostForm = Inl ''no form'',
            MultipartForm = (\<lambda>_. Inl ''no form'')\<rparr>"
  define wd where "wd = \<lparr>xsrftoken_Generate = (\<lambda>k s p. k @ '':'' @ s @ '':'' @ p),
             xsrftoken_Valid = (\<lambda>t k s p. t = k @ '':'' @ s @ '':'' @ p),
             rand_err = None, rand_bytes = (of_nat :: nat \<Rightarrow> 8 word)\<rparr>"
  define gen where "gen = \<lparr>angularGenerator.tokenCookieName = ''XSRF-TOKEN''\<rparr>"
  have h1: "Cookie r (angularGenerator.tokenCookieName gen)
              = Inl ''http: named cookie not present''"
    by (simp add: r_def)
  have h2: "rand_Read wd 20 = Inr (map of_nat [0..<20])"
    by (simp add: wd_def rand_Read_def)
  have e: "EncodeToString (map of_nat [0..<20]) = ''AAECAwQFBgcICQoLDA0ODxAREhM=''"
    unfolding upt_20 using EncodeToString_0_to_19 by simp
  have "angularGenerator_Generate wd gen r =
        (AngularData
           \<lparr>tokCookie =
              \<lparr>ck_name = ''XSRF-TOKEN'', ck_value = ''AAECAwQFBgcICQoLDA0ODxAREhM='',
               ck_sameSite = SameSiteStrictMode, ck_path = ''/'', ck_maxAge = 86400,
               ck_httpOnly = False\<rparr>,
            angularData.setCookie = True\<rparr>,
         None)"
    using angularGenerator_mints_cookie [OF h1 h2] by (simp only: e) (simp add: gen_def)
  with h1 h2 show ?thesis
    unfolding Let_def r_def wd_def gen_def by simp
qed

text \<open>
  Claim C10. For both strategies, \<^verbatim>\<open>Generate\<close> returns an error exactly when the request
  lacks the named cookie and the read of 20 random bytes fails; the generated data is nil
  exactly when an error is returned (so then there is no payload: no cookie marked for
  setting, no token); and on a request that carries the cookie no error is returned.
\<close>

theorem Generate_error_iff_mint_fails:
  "(snd (Generate wd (DefaultGenerator dg) r) \<noteq> None \<longleftrightarrow>
      isl (Cookie r (defaultGenerator.cookieIDKey dg)) \<and> isl (rand_Read wd 20))
   \<and> (snd (Generate wd (AngularGenerator ag) r) \<noteq> None \<longleftrightarrow>
      isl (Cookie r (angularGenerator.tokenCookieName ag)) \<and> isl (rand_Read wd 20))
   \<and> (fst (Generate wd (DefaultGenerator dg) r) = NilData \<longleftrightarrow>
      snd (Generate wd (DefaultGenerator dg) r) \<noteq> None)
   \<and> (fst (Generate wd (AngularGenerator ag) r) = NilData \<longleftrightarrow>
      snd (Generate wd (AngularGenerator ag) r) \<noteq> None)
   \<and> (\<forall>ck. Cookie r (defaultGenerator.cookieIDKey dg) = Inr ck \<longrightarrow>
      snd (Generate wd (DefaultGenerator dg) r) = None)
   \<and> (\<forall>ck. Cookie r (angularGenerator.tokenCookieName ag) = Inr ck \<longrightarrow>
      snd (Generate wd (AngularGenerator ag) r) = None)"
proof -
  have dflt: "(snd (defaultGenerator_Generate wd dg r) \<noteq> None \<longleftrightarrow>
        isl (Cookie r (defaultGenerator.cookieIDKey dg)) \<and> isl (rand_Read wd 20))
      \<and> (fst (defaultGenerator_Generate wd dg r) = NilData \<longleftrightarrow>
        snd (defaultGenerator_Generate wd dg r) \<noteq> None)"
  proof (cases "Cookie r (defaultGenerator.cookieIDKey dg)")
    case (Inr ck)
    then show ?thesis by (simp add: defaultGenerator_Generate_present)
  next
    case absent: (Inl e)
    show ?thesis
    proof (cases "rand_Read wd 20")
      case (Inl e')
      with absent show ?thesis by (simp add: defaultGenerator_Generate_read_fails)
    next
      case (Inr buf)
      with absent defaultGenerator_Generate_minted [OF absent Inr] show ?thesis by auto
    qed
  qed
  have ang: "(snd (angularGenerator_Generate wd ag r) \<noteq> None \<longleftrightarrow>
        isl (Cookie r (angularGenerator.tokenCookieName ag)) \<and> isl (rand_Read wd 20))
      \<and> (fst (angularGenerator_Generate wd ag r) = NilData \<longleftrightarrow>
        snd (angularGenerator_Generate wd ag r) \<noteq> None)"
  proof (cases "Cookie r (angularGenerator.tokenCookieName ag)")
    case (Inr ck)
    then show ?thesis by (simp add: angularGenerator_Generate_present)
  next
    case absent: (Inl e)
    show ?thesis
    proof (cases "rand_Read wd 20")
      case (Inl e')
      with absent show ?thesis by (simp add: angularGenerator_Generate_read_fails)
    next
      case (Inr buf)
      with absent show ?thesis by (simp add: angularGenerator_Generate_minted)
    qed
  qed
  from dflt ang show ?thesis
    by (simp add: defaultGenerator_Generate_present angularGenerator_Generate_present)
qed

text \<open>A failing random source: an error and nil data without the cookie, no error with it.\<close>

theorem Generate_error_iff_mint_fails_witness:
  "let r = \<lparr>Method = ''GET'', URL_Path = ''/form'',
            Cookie = (\<lambda>_. Inl ''http: named cookie not present''),
            Header_Get = (\<lambda>_. ''''), PostForm = Inl ''no form'',
            MultipartForm = (\<lambda>_. Inl ''no form'')\<rparr>;
       r' = r\<lparr>Cookie := (\<lambda>n. Inr (NewCookie n ''sid''))\<rparr>;
       wd = \<lparr>xsrftoken_Generate = (\<lambda>k s p. k @ '':'' @ s @ '':'' @ p),
             xsrftoken_Valid = (\<lambda>t k s p. t = k @ '':'' @ s @ '':'' @ p),
             rand_err = Some ''EOF'', rand_bytes = (\<lambda>_. 0)\<rparr>
   in Generate wd (it_g (Default ''secret'')) r = (NilData, Some ''crypto/rand.Read: EOF'')
      \<and> Generate wd (it_g (Angular ''XSRF-TOKEN'' ''X-XSRF-TOKEN'')) r
          = (NilData, Some ''crypto/rand.Read: EOF'')
      \<and> Cookie r' ''xsrf-cookie'' = Inr (NewCookie ''xsrf-cookie'' ''sid'')
      \<and> snd (Generate wd (it_g (Default ''secret'')) r') = None
      \<and> Cookie r' ''XSRF-TOKEN'' = Inr (NewCookie ''XSRF-TOKEN'' ''sid'')
      \<and> snd (Generate wd (it_g (Angular ''XSRF-TOKEN'' ''X-XSRF-TOKEN'')) r') = None"
proof -
  define r where "r = \<lparr>Method = ''GET'', URL_Path = ''/form'',
            Cookie = (\<lambda>_. Inl ''http: named cookie not present'' :: error + Cookie),
            Header_Get = (\<lambda>_. ''''), PostForm = Inl ''no form'',
            MultipartForm = (\<lambda>_. Inl ''no form'')\<rparr>"
  define r' where "r' = r\<lparr>Cookie := (\<lambda>n. Inr (NewCookie n ''sid''))\<rparr>"
  define wd where "wd = \<lparr>xsrftoken_Generate = (\<lambda>k s p. k @ '':'' @ s @ '':'' @ p),
             xsrftoken_Valid = (\<lambda>t k s p. t = k @ '':'' @ s @ '':'' @ p),
             rand_err = Some ''EOF'', rand_bytes = (\<lambda>_. 0 :: 8 word)\<rparr>"
  define dg where "dg = \<lparr>defaultGenerator.secretAppKey = ''secret'',
                         defaultGenerator.cookieIDKey = ''xsrf-cookie''\<rparr>"
  define ag where "ag = \<lparr>angularGenerator.tokenCookieName = ''XSRF-TOKEN''\<rparr>"
  have h1: "Cookie r' (defaultGenerator.cookieIDKey dg) = Inr (NewCookie ''xsrf-cookie'' ''sid'')"
    and h2: "Cookie r' (angularGenerator.tokenCookieName ag)
               = Inr (NewCookie ''XSRF-TOKEN'' ''sid'')"
    by (simp_all add: r'_def dg_def ag_def)
  have "snd (Generate wd (DefaultGenerator dg) r') = None"
    and "snd (Generate wd (AngularGenerator ag) r') = None"
    using Generate_error_iff_mint_fails [of wd dg r' ag] h1 h2 by blast+
  moreover have "Generate wd (DefaultGenerator dg) r = (NilData, Some ''crypto/rand.Read: EOF'')"
    and "Generate wd (AngularGenerator ag) r = (NilData, Some ''crypto/rand.Read: EOF'')"
    by (simp_all add: defaultGenerator_Generate_def angularGenerator_Generate_def r_def wd_def
        rand_Read_def)
  ultimately show ?thesis
    using h1 h2
    unfolding Let_def Default_def Angular_def dg_def ag_def r'_def r_def wd_def by simp
qed

subsection \<open>What the interceptor does with the outcomes\<close>

text \<open>
  Claim C8. \<^verbatim>\<open>Before\<close> runs the checker. When the status is not 200, it returns what
  \<^verbatim>\<open>WriteError\<close> returns for that status, and the writer has that one error response more.
  When the status is 200, it returns \<^verbatim>\<open>NotWritten\<close> and the writer as it was. The writer
  is left as it was exactly when the status is 200. This holds for any checker, the two of
  the plugin and a caller's own.
\<close>

theorem Before_short_circuits:
  "(Check wd (it_c it) r \<noteq> 200 \<longrightarrow>
       Before wd it w r = WriteError w (Check wd (it_c it) r)
       \<and> calls (snd (Before wd it w r)) = calls w @ [WroteError (Check wd (it_c it) r)])
   \<and> (Check wd (it_c it) r = 200 \<longrightarrow> Before wd it w r = (NotWritten, w))
   \<and> (snd (Before wd it w r) = w \<longleftrightarrow> Check wd (it_c it) r = 200)"
  using writer_call_added [of w]
  by (simp add: Before_def Let_def WriteError_def status_defs)

text \<open>A POST without the cookie is answered with 403; the same request as a GET passes on.\<close>

theorem Before_short_circuits_witness:
  "let r = \<lparr>Method = ''POST'', URL_Path = ''/pay'',
            Cookie = (\<lambda>_. Inl ''http: named cookie not present''),
            Header_Get = (\<lambda>_. ''''), PostForm = Inl ''no form'',
            MultipartForm = (\<lambda>_. Inl ''no form'')\<rparr>;
       wd = \<lparr>xsrftoken_Generate = (\<lambda>k s p. k @ '':'' @ s @ '':'' @ p),
             xsrftoken_Valid = (\<lambda>t k s p. t = k @ '':'' @ s @ '':'' @ p),
             rand_err = None, rand_bytes = (\<lambda>_. 0)\<rparr>;
       w = \<lparr>calls = [], refuses = (\<lambda>_. None)\<rparr>
   in Check wd (it_c (Default ''secret'')) r = 403
      \<and> Before wd (Default ''secret'') w r
          = (EmptyResult, \<lparr>calls = [WroteError 403], refuses = (\<lambda>_. None)\<rparr>)
      \<and> Check wd (it_c (Default ''secret'')) (r\<lparr>Method := ''GET''\<rparr>) = 200
      \<and> Before wd (Default ''secret'') w (r\<lparr>Method := ''GET''\<rparr>) = (NotWritten, w)"
proof -
  define r where "r = \<lparr>Method = ''POST'', URL_Path = ''/pay'',
            Cookie = (\<lambda>_. Inl ''http: named cookie not present'' :: error + Cookie),
            Header_Get = (\<lambda>_. ''''), PostForm = Inl ''no form'',
            MultipartForm = (\<lambda>_. Inl ''no form'')\<rparr>"
  define wd where "wd = \<lparr>xsrftoken_Generate = (\<lambda>k s p. k @ '':'' @ s @ '':'' @ p),
             xsrftoken_Valid = (\<lambda>t k s p. t = k @ '':'' @ s @ '':'' @ p),
             rand_err = None, rand_bytes = (\<lambda>_. 0 :: 8 word)\<rparr>"
  define w where "w = \<lparr>calls = [], refuses = (\<lambda>_. None :: error option)\<rparr>"
  have k1: "Check wd (it_c (Default ''secret'')) r = 403"
    by (simp add: Default_def defaultChecker_Check_def statePreserving_iff r_def status_defs)
  have k2: "Check wd (it_c (Default ''secret'')) (r\<lparr>Method := ''GET''\<rparr>) = 200"
    by (simp add: Default_def defaultChecker_Check_def statePreserving_iff r_def status_defs)
  have b1: "Before wd (Default ''secret'') w r = WriteError w 403"
    using Before_short_circuits [of wd "Default ''secret''" r w] k1 by simp
  have b2: "Before wd (Default ''secret'') w (r\<lparr>Method := ''GET''\<rparr>) = (NotWritten, w)"
    using Before_short_circuits [of wd "Default ''secret''" "r\<lparr>Method := ''GET''\<rparr>" w] k2 by simp
  show ?thesis
    using k1 k2 b1 b2 unfolding Let_def r_def wd_def w_def by (simp add: WriteError_def)
qed

text \<open>
  Claim C6. If the generator returns an error, \<^verbatim>\<open>Commit\<close> writes an error response with
  status 500 and nothing else. If the generator succeeds and the injector returns an error,
  \<^verbatim>\<open>Commit\<close> writes an error response with status 500 on the writer as the injector left
  it. In both cases what is written does not depend on the error. Each injector of the plugin
  returns an error, and touches neither the response nor the writer, when it is given the
  other strategy's payload.
\<close>

theorem Commit_errors_become_500:
  "(\<forall>data err. Generate wd (it_g it) r = (data, Some err) \<longrightarrow>
       Commit wd it w r resp
         = (EmptyResult, resp, w\<lparr>calls := calls w @ [WroteError 500]\<rparr>))
   \<and> (\<forall>data err resp' w'.
         Generate wd (it_g it) r = (data, None)
         \<and> Inject (it_i it) resp w data = (Some err, resp', w') \<longrightarrow>
       Commit wd it w r resp
         = (EmptyResult, resp', w'\<lparr>calls := calls w' @ [WroteError 500]\<rparr>))
   \<and> Inject DefaultInjector resp w (AngularData ad)
       = (Some ''invalid data received'', resp, w)
   \<and> Inject AngularInjector resp w (DefaultData dd)
       = (Some ''invalid data received'', resp, w)"
proof (intro conjI allI impI)
  fix data err
  assume "Generate wd (it_g it) r = (data, Some err)"
  then show "Commit wd it w r resp
         = (EmptyResult, resp, w\<lparr>calls := calls w @ [WroteError 500]\<rparr>)"
    by (simp add: Commit_def WriteError_def StatusInternalServerError_def)
next
  fix data err resp' w'
  assume "Generate wd (it_g it) r = (data, None)
         \<and> Inject (it_i it) resp w data = (Some err, resp', w')"
  then show "Commit wd it w r resp
         = (EmptyResult, resp', w'\<lparr>calls := calls w' @ [WroteError 500]\<rparr>)"
    by (simp add: Commit_def WriteError_def StatusInternalServerError_def)
next
  show "Inject DefaultInjector resp w (AngularData ad)
       = (Some ''invalid data received'', resp, w)"
    by (simp add: defaultInjector_Inject_def)
next
  show "Inject AngularInjector resp w (DefaultData dd)
       = (Some ''invalid data received'', resp, w)"
    by (simp add: angularInjector_Inject_def)
qed

text \<open>A failing random source, and an Angular generator paired with the Default injector: both end in a 500.\<close>

theorem Commit_errors_become_500_witness:
  "let r = \<lparr>Method = ''GET'', URL_Path = ''/form'',
            Cookie = (\<lambda>_. Inl ''http: named cookie not present''),
            Header_Get = (\<lambda>_. ''''), PostForm = Inl ''no form'',
            MultipartForm = (\<lambda>_. Inl ''no form'')\<rparr>;
       wd = \<lparr>xsrftoken_Generate = (\<lambda>k s p. k @ '':'' @ s @ '':'' @ p),
             xsrftoken_Valid = (\<lambda>t k s p. t = k @ '':'' @ s @ '':'' @ p),
             rand_err = Some ''EOF'', rand_bytes = (\<lambda>_. 0)\<rparr>;
       w = \<lparr>calls = [], refuses = (\<lambda>_. None)\<rparr>;
       mixed = New ''secret'' (AngularGenerator \<lparr>angularGenerator.tokenCookieName = ''c''\<rparr>)
                 (it_c (Default ''secret'')) DefaultInjector
   in Generate wd (it_g (Default ''secret'')) r = (NilData, Some ''crypto/rand.Read: EOF'')
      \<and> Commit wd (Default ''secret'') w r (TemplateResponse Map.empty)
          = (EmptyResult, TemplateResponse Map.empty,
             \<lparr>calls = [WroteError 500], refuses = (\<lambda>_. None)\<rparr>)
      \<and> Commit (wd\<lparr>rand_err := None\<rparr>) mixed w r OtherResponse
          = (EmptyResult, OtherResponse, \<lparr>calls = [WroteError 500], refuses = (\<lambda>_. None)\<rparr>)"
proof -
  define r where "r = \<lparr>Method = ''GET'', URL_Path = ''/form'',
            Cookie = (\<lambda>_. Inl ''http: named cookie not present'' :: error + Cookie),
            Header_Get = (\<lambda>_. ''''), PostForm = Inl ''no form'',
            MultipartForm = (\<lambda>_. Inl ''no form'')\<rparr>"
  define wd where "wd = \<lparr>xsrftoken_Generate = (\<lambda>k s p. k @ '':'' @ s @ '':'' @ p),
             xsrftoken_Valid = (\<lambda>t k s p. t = k @ '':'' @ s @ '':'' @ p),
             rand_err = Some ''EOF'', rand_bytes = (\<lambda>_. 0 :: 8 word)\<rparr>"
  define w where "w = \<lparr>calls = [], refuses = (\<lambda>_. None :: error option)\<rparr>"
  define mixed where "mixed = New ''secret''
      (AngularGenerator \<lparr>angularGenerator.tokenCookieName = ''c''\<rparr>)
      (it_c (Default ''secret'')) DefaultInjector"
  have g1: "Generate wd (it_g (Default ''secret'')) r = (NilData, Some ''crypto/rand.Read: EOF'')"
    by (simp add: Default_def defaultGenerator_Generate_def r_def wd_def rand_Read_def)
  obtain d where g2: "Generate (wd\<lparr>rand_err := None\<rparr>) (it_g mixed) r = (AngularData d, None)"
    by (simp add: mixed_def New_def angularGenerator_Generate_def r_def wd_def rand_Read_def)
  have i2: "Inject (it_i mixed) OtherResponse w (AngularData d)
              = (Some ''invalid data received'', OtherResponse, w)"
    by (simp add: mixed_def New_def defaultInjector_Inject_def)
  have c1: "Commit wd (Default ''secret'') w r (TemplateResponse Map.empty)
          = (EmptyResult, TemplateResponse Map.empty, w\<lparr>calls := calls w @ [WroteError 500]\<rparr>)"
    using Commit_errors_become_500 [of wd "Default ''secret''" r w "TemplateResponse Map.empty"] g1 by blast
  have c2: "Commit (wd\<lparr>rand_err := None\<rparr>) mixed w r OtherResponse
          = (EmptyResult, OtherResponse, w\<lparr>calls := calls w @ [WroteError 500]\<rparr>)"
    using Commit_errors_become_500 [of "wd\<lparr>rand_err := None\<rparr>" mixed r w OtherResponse] g2 i2 by blast
  show ?thesis
    using g1 c1 c2 unfolding Let_def r_def wd_def w_def mixed_def by simp
qed

text \<open>
  Claim C9. The interceptor built by \<^verbatim>\<open>Angular\<close> has the empty string as its secret key and
  an Angular checker with the given cookie and header names. The status of an Angular checker
  is the same whatever the interceptor's secret key, its generator and injector, and the codec
  are; and two requests with the same method, the same presence and value of the named cookie
  and the same value of the named header get the same status.
\<close>

theorem angularChecker_ignores_secret:
  "Interceptor.secretAppKey (Angular cookieName headerName) = ''''
   \<and> it_c (Angular cookieName headerName)
       = AngularChecker \<lparr>angularChecker.tokenCookieName = cookieName,
                          tokenHeaderName = headerName\<rparr>
   \<and> Check wd1 (it_c (New k1 gen1 (AngularChecker achk) ijr1)) r
       = Check wd2 (it_c (New k2 gen2 (AngularChecker achk) ijr2)) r
   \<and> (Method r = Method r'
       \<and> map_sum (\<lambda>_. ()) Value (Cookie r (angularChecker.tokenCookieName achk))
           = map_sum (\<lambda>_. ()) Value (Cookie r' (angularChecker.tokenCookieName achk))
       \<and> Header_Get r (tokenHeaderName achk) = Header_Get r' (tokenHeaderName achk)
      \<longrightarrow> Check wd1 (AngularChecker achk) r = Check wd2 (AngularChecker achk) r')"
proof (intro conjI impI)
  show "Interceptor.secretAppKey (Angular cookieName headerName) = ''''"
    by (simp add: Angular_def)
  show "it_c (Angular cookieName headerName)
       = AngularChecker \<lparr>angularChecker.tokenCookieName = cookieName,
                          tokenHeaderName = headerName\<rparr>"
    by (simp add: Angular_def)
  show "Check wd1 (it_c (New k1 gen1 (AngularChecker achk) ijr1)) r
       = Check wd2 (it_c (New k2 gen2 (AngularChecker achk) ijr2)) r"
    by (simp add: New_def)
next
  assume same: "Method r = Method r'
       \<and> map_sum (\<lambda>_. ()) Value (Cookie r (angularChecker.tokenCookieName achk))
           = map_sum (\<lambda>_. ()) Value (Cookie r' (angularChecker.tokenCookieName achk))
       \<and> Header_Get r (tokenHeaderName achk) = Header_Get r' (tokenHeaderName achk)"
  have "angularChecker_Check achk r = angularChecker_Check achk r'"
    unfolding angularChecker_Check_reads using same by (simp split: sum.splits)
  then show "Check wd1 (AngularChecker achk) r = Check wd2 (AngularChecker achk) r'"
    by simp
qed

text \<open>Two requests that differ in path, form and other cookies, under two different codecs.\<close>

theorem angularChecker_ignores_secret_witness:
  "let r = \<lparr>Method = ''POST'', URL_Path = ''/pay'',
            Cookie = (\<lambda>n. if n = ''XSRF-TOKEN'' then Inr (NewCookie n ''sid'')
                          else Inl ''http: named cookie not present''),
            Header_Get = (\<lambda>n. if n = ''X-XSRF-TOKEN'' then ''sid'' else ''''),
            PostForm = Inl ''no form'', MultipartForm = (\<lambda>_. Inl ''no form'')\<rparr>;
       r' = r\<lparr>URL_Path := ''/other'',
               Cookie := (\<lambda>n. if n = ''XSRF-TOKEN''
                               then Inr (DisableHTTPOnly (NewCookie n ''sid''))
                               else Inr (NewCookie n ''x'')),
               PostForm := Inr \<lparr>form_values = Map.empty, form_err = None\<rparr>\<rparr>;
       wd1 = \<lparr>xsrftoken_Generate = (\<lambda>k s p. k @ '':'' @ s @ '':'' @ p),
              xsrftoken_Valid = (\<lambda>t k s p. t = k @ '':'' @ s @ '':'' @ p),
              rand_err = None, rand_bytes = (\<lambda>_. 0)\<rparr>;
       wd2 = \<lparr>xsrftoken_Generate = (\<lambda>k s p. ''''), xsrftoken_Valid = (\<lambda>t k s p. False),
              rand_err = Some ''EOF'', rand_bytes = (\<lambda>_. 1)\<rparr>;
       achk = \<lparr>angularChecker.tokenCookieName = ''XSRF-TOKEN'',
               tokenHeaderName = ''X-XSRF-TOKEN''\<rparr>
   in Method r = Method r'
      \<and> map_sum (\<lambda>_. ()) Value (Cookie r (angularChecker.tokenCookieName achk))
           = map_sum (\<lambda>_. ()) Value (Cookie r' (angularChecker.tokenCookieName achk))
      \<and> Header_Get r (tokenHeaderName achk) = Header_Get r' (tokenHeaderName achk)
      \<and> Check wd1 (AngularChecker achk) r = 200
      \<and> Check wd2 (AngularChecker achk) r' = 200
      \<and> Interceptor.secretAppKey (Angular ''XSRF-TOKEN'' ''X-XSRF-TOKEN'') = ''''"
proof -
  define r where "r = \<lparr>Method = ''POST'', URL_Path = ''/pay'',
            Cookie = (\<lambda>n. if n = ''XSRF-TOKEN'' then Inr (NewCookie n ''sid'')
                          else Inl ''http: named cookie not present''),
            Header_Get = (\<lambda>n. if n = ''X-XSRF-TOKEN'' then ''sid'' else ''''),
            PostForm = Inl ''no form'', MultipartForm = (\<lambda>_. Inl ''no form'')\<rparr>"
  define r' where "r' = r\<lparr>URL_Path := ''/other'',
               Cookie := (\<lambda>n. if n = ''XSRF-TOKEN''
                               then Inr (DisableHTTPOnly (NewCookie n ''sid''))
                               else Inr (NewCookie n ''x'')),
               PostForm := Inr \<lparr>form_values = Map.empty, form_err = None\<rparr>\<rparr>"
  define wd1 where "wd1 = \<lparr>xsrftoken_Generate = (\<lambda>k s p. k @ '':'' @ s @ '':'' @ p),
              xsrftoken_Valid = (\<lambda>t k s p. t = k @ '':'' @ s @ '':'' @ p),
              rand_err = None, rand_bytes = (\<lambda>_. 0 :: 8 word)\<rparr>"
  define wd2 where "wd2 = \<lparr>xsrftoken_Generate = (\<lambda>k s p. ''''),
              xsrftoken_Valid = (\<lambda>t k s p. False),
              rand_err = Some ''EOF'', rand_bytes = (\<lambda>_. 1 :: 8 word)\<rparr>"
  define achk where "achk = \<lparr>angularChecker.tokenCookieName = ''XSRF-TOKEN'',
               tokenHeaderName = ''X-XSRF-TOKEN''\<rparr>"
  have h: "Method r = Method r'
      \<and> map_sum (\<lambda>_. ()) Value (Cookie r (angularChecker.tokenCookieName achk))
           = map_sum (\<lambda>_. ()) Value (Cookie r' (angularChecker.tokenCookieName achk))
      \<and> Header_Get r (tokenHeaderName achk) = Header_Get r' (tokenHeaderName achk)"
    by (simp add: r_def r'_def achk_def cookie_ops)
  have k: "Check wd1 (AngularChecker achk) r = 200"
    by (simp add: angularChecker_Check_def statePreserving_iff r_def achk_def cookie_ops
        status_defs)
  have "Check wd1 (AngularChecker achk) r = Check wd2 (AngularChecker achk) r'"
    and "Interceptor.secretAppKey (Angular ''XSRF-TOKEN'' ''X-XSRF-TOKEN'') = ''''"
    using angularChecker_ignores_secret [of "''XSRF-TOKEN''" "''X-XSRF-TOKEN''" wd1 _ _ achk _ r wd2 _ _ _ r'] h
    by blast+
  with h k show ?thesis
    unfolding Let_def r_def r'_def wd1_def wd2_def achk_def by simp
qed

end
